theory Spec2Isabelle
  imports Complex_Main
begin

section \<open>C float values\<close>

text \<open>
  The program computes with C \<open>float\<close>. A float is modelled as an exact real number or one
  of the three IEEE 754 special values. Arithmetic on finite values is exact (rounding,
  overflow and underflow are not modelled); the special values arise and propagate as IEEE
  754 prescribes. The two zeros are identified and taken as \<open>+0\<close>.
\<close>

datatype cfloat = Fin real | PInf | NInf | NaN

fun fneg :: "cfloat \<Rightarrow> cfloat" where
  "fneg (Fin a) = Fin (- a)"
| "fneg PInf = NInf"
| "fneg NInf = PInf"
| "fneg NaN = NaN"

fun fadd :: "cfloat \<Rightarrow> cfloat \<Rightarrow> cfloat" where
  "fadd (Fin a) (Fin b) = Fin (a + b)"
| "fadd NaN _ = NaN"
| "fadd _ NaN = NaN"
| "fadd PInf NInf = NaN"
| "fadd NInf PInf = NaN"
| "fadd PInf _ = PInf"
| "fadd NInf _ = NInf"
| "fadd _ PInf = PInf"
| "fadd _ NInf = NInf"

definition fsub :: "cfloat \<Rightarrow> cfloat \<Rightarrow> cfloat" where
  "fsub a b = fadd a (fneg b)"

text \<open>The sign of an infinite product or quotient: positive when the finite operand is.\<close>

definition signed_inf :: "bool \<Rightarrow> cfloat" where
  "signed_inf pos = (if pos then PInf else NInf)"

fun fmul :: "cfloat \<Rightarrow> cfloat \<Rightarrow> cfloat" where
  "fmul (Fin a) (Fin b) = Fin (a * b)"
| "fmul NaN _ = NaN"
| "fmul _ NaN = NaN"
| "fmul (Fin a) PInf = (if a = 0 then NaN else signed_inf (0 < a))"
| "fmul (Fin a) NInf = (if a = 0 then NaN else signed_inf (a < 0))"
| "fmul PInf (Fin b) = (if b = 0 then NaN else signed_inf (0 < b))"
| "fmul NInf (Fin b) = (if b = 0 then NaN else signed_inf (b < 0))"
| "fmul PInf PInf = PInf"
| "fmul NInf NInf = PInf"
| "fmul PInf NInf = NInf"
| "fmul NInf PInf = NInf"

fun fdiv :: "cfloat \<Rightarrow> cfloat \<Rightarrow> cfloat" where
  "fdiv (Fin a) (Fin b) =
     (if b \<noteq> 0 then Fin (a / b) else if a = 0 then NaN else signed_inf (0 < a))"
| "fdiv NaN _ = NaN"
| "fdiv _ NaN = NaN"
| "fdiv (Fin a) _ = Fin 0"
| "fdiv PInf (Fin b) = signed_inf (0 \<le> b)"
| "fdiv NInf (Fin b) = signed_inf (b < 0)"
| "fdiv PInf PInf = NaN"
| "fdiv PInf NInf = NaN"
| "fdiv NInf PInf = NaN"
| "fdiv NInf NInf = NaN"

fun fsqrt :: "cfloat \<Rightarrow> cfloat" where
  "fsqrt (Fin a) = (if a < 0 then NaN else Fin (sqrt a))"
| "fsqrt PInf = PInf"
| "fsqrt NInf = NaN"
| "fsqrt NaN = NaN"

fun ffabs :: "cfloat \<Rightarrow> cfloat" where
  "ffabs (Fin a) = Fin \<bar>a\<bar>"
| "ffabs PInf = PInf"
| "ffabs NInf = PInf"
| "ffabs NaN = NaN"

text \<open>Comparisons: every ordered comparison with a NaN is false, \<open>!=\<close> with a NaN is true.\<close>

fun flt :: "cfloat \<Rightarrow> cfloat \<Rightarrow> bool" where
  "flt (Fin a) (Fin b) = (a < b)"
| "flt NaN _ = False"
| "flt _ NaN = False"
| "flt _ NInf = False"
| "flt PInf _ = False"
| "flt NInf _ = True"
| "flt (Fin a) PInf = True"

definition fgt :: "cfloat \<Rightarrow> cfloat \<Rightarrow> bool" where
  "fgt a b = flt b a"

definition fle :: "cfloat \<Rightarrow> cfloat \<Rightarrow> bool" where
  "fle a b = (a \<noteq> NaN \<and> b \<noteq> NaN \<and> \<not> flt b a)"

definition feq :: "cfloat \<Rightarrow> cfloat \<Rightarrow> bool" where
  "feq a b = (a \<noteq> NaN \<and> b \<noteq> NaN \<and> a = b)"

definition fneq :: "cfloat \<Rightarrow> cfloat \<Rightarrow> bool" where
  "fneq a b = (\<not> feq a b)"

text \<open>The real number a finite float stands for.\<close>

fun rl :: "cfloat \<Rightarrow> real" where
  "rl (Fin a) = a"
| "rl _ = 0"

fun is_fin :: "cfloat \<Rightarrow> bool" where
  "is_fin (Fin a) = True"
| "is_fin _ = False"

section \<open>Vectors (raymath.h)\<close>

text \<open>
  Modelled from the spec: \<open>raylib.h\<close> and \<open>raymath.h\<close> belong to the raylib library and
  are not part of the repository; section 2 of the specification assumes the 3D
  add/subtract/scale/normalize/length utilities of a standard vector library. The functions
  below follow raymath's definitions, componentwise on floats. The components of a vector
  are named \<open>vx\<close>, \<open>vy\<close>, \<open>vz\<close> for the C fields \<open>x\<close>, \<open>y\<close>, \<open>z\<close>.
\<close>

datatype Vector2 = Vector2 (v2x: cfloat) (v2y: cfloat)

datatype Vector3 = Vector3 (vx: cfloat) (vy: cfloat) (vz: cfloat)

definition Vector2Subtract :: "Vector2 \<Rightarrow> Vector2 \<Rightarrow> Vector2" where
  "Vector2Subtract v1 v2 = Vector2 (fsub (v2x v1) (v2x v2)) (fsub (v2y v1) (v2y v2))"

definition Vector2LengthSqr :: "Vector2 \<Rightarrow> cfloat" where
  "Vector2LengthSqr v = fadd (fmul (v2x v) (v2x v)) (fmul (v2y v) (v2y v))"

definition Vector3Zero :: Vector3 where
  "Vector3Zero = Vector3 (Fin 0) (Fin 0) (Fin 0)"

definition Vector3Add :: "Vector3 \<Rightarrow> Vector3 \<Rightarrow> Vector3" where
  "Vector3Add v1 v2 =
     Vector3 (fadd (vx v1) (vx v2)) (fadd (vy v1) (vy v2)) (fadd (vz v1) (vz v2))"

definition Vector3Subtract :: "Vector3 \<Rightarrow> Vector3 \<Rightarrow> Vector3" where
  "Vector3Subtract v1 v2 =
     Vector3 (fsub (vx v1) (vx v2)) (fsub (vy v1) (vy v2)) (fsub (vz v1) (vz v2))"

definition Vector3Scale :: "Vector3 \<Rightarrow> cfloat \<Rightarrow> Vector3" where
  "Vector3Scale v scalar = Vector3 (fmul (vx v) scalar) (fmul (vy v) scalar) (fmul (vz v) scalar)"

definition Vector3LengthSqr :: "Vector3 \<Rightarrow> cfloat" where
  "Vector3LengthSqr v =
     fadd (fadd (fmul (vx v) (vx v)) (fmul (vy v) (vy v))) (fmul (vz v) (vz v))"

definition Vector3Length :: "Vector3 \<Rightarrow> cfloat" where
  "Vector3Length v = fsqrt (Vector3LengthSqr v)"

text \<open>
  \<open>Vector3Normalize\<close> returns its argument unchanged when the length is zero, and multiplies
  each component by \<open>1.0f/length\<close> otherwise.
\<close>

definition Vector3Normalize :: "Vector3 \<Rightarrow> Vector3" where
  "Vector3Normalize v =
     (let length = Vector3Length v
      in if fneq length (Fin 0)
         then (let ilength = fdiv (Fin 1) length
               in Vector3 (fmul (vx v) ilength) (fmul (vy v) ilength) (fmul (vz v) ilength))
         else v)"

section \<open>Data model\<close>

text \<open>The colours the program gives to bodies.\<close>

datatype Color = GOLD | SKYBLUE | RED | WHITE

record Body =
  position :: Vector3
  velocity :: Vector3
  mass :: cfloat
  radius :: cfloat
  color :: Color
  isFixed :: bool

record PlanetBuilder =
  active :: bool
  startPos :: Vector3
  endPos :: Vector3

text \<open>The constants of \<open>main.c\<close>.\<close>

definition G :: cfloat where
  "G = Fin 500"

definition BASE_DT :: cfloat where
  "BASE_DT = Fin (5 / 10000)"

definition SUBSTEPS :: nat where
  "SUBSTEPS = 8"

section \<open>The curvature sampler\<close>

text \<open>The body of the loop of \<open>GetSpacetimeCurve\<close>: one body's effect on the running height.\<close>

definition curve_body :: "cfloat \<Rightarrow> cfloat \<Rightarrow> Body \<Rightarrow> cfloat \<Rightarrow> cfloat" where
  "curve_body x z b y =
     (if flt (mass b) (Fin 50) then y
      else (let distSq = Vector2LengthSqr (Vector2Subtract (Vector2 x z)
                           (Vector2 (vx (position b)) (vz (position b))));
                depression = fdiv (fmul (mass b) (Fin (1 / 2))) (fadd distSq (Fin 60));
                depression = (if fgt depression (Fin 40) then Fin 40 else depression)
            in fsub y depression))"

definition GetSpacetimeCurve :: "cfloat \<Rightarrow> cfloat \<Rightarrow> Body list \<Rightarrow> cfloat" where
  "GetSpacetimeCurve x z bodies = fold (curve_body x z) bodies (Fin (- 15))"

section \<open>Projecting the pointer onto the plane\<close>

text \<open>
  \<open>GetMouseRay\<close> and \<open>GetMousePosition\<close> are raylib calls; the ray they produce is the
  argument of the model. The fields of raylib's \<open>Ray\<close> are \<open>position\<close> and \<open>direction\<close>.
\<close>

record Ray =
  ray_position :: Vector3
  ray_direction :: Vector3

definition GetMouseOnPlane :: "Ray \<Rightarrow> Vector3" where
  "GetMouseOnPlane ray =
     (if flt (ffabs (vy (ray_direction ray))) (Fin (1 / 1000)) then Vector3Zero
      else (let t = fdiv (fneg (vy (ray_position ray))) (vy (ray_direction ray))
            in if flt t (Fin 0) then Vector3Zero
               else Vector3Add (ray_position ray) (Vector3Scale (ray_direction ray) t)))"

section \<open>The builder\<close>

text \<open>
  What one frame's pointer supplies: the three button predicates of raylib for the left
  button and the point \<open>mousePos3D\<close>.
\<close>

record Pointer =
  pressed :: bool
  down :: bool
  released :: bool
  mousePos3D :: Vector3

text \<open>Lines 136 to 142: a press starts the gesture, a held button moves its end point.\<close>

definition gesture_track :: "Pointer \<Rightarrow> PlanetBuilder \<Rightarrow> PlanetBuilder" where
  "gesture_track p builder =
     (let builder = (if pressed p then builder\<lparr>active := True, startPos := mousePos3D p\<rparr>
                     else builder)
      in if down p then builder\<lparr>endPos := mousePos3D p\<rparr> else builder)"

text \<open>Lines 147 to 158: the body pushed for a drag \<open>diff\<close> from \<open>startPos\<close>.\<close>

definition new_body :: "Vector3 \<Rightarrow> Vector3 \<Rightarrow> cfloat \<Rightarrow> Body" where
  "new_body start diff newPlanetMass =
     (let velocity = Vector3Scale diff (Fin 5);
          radius = fdiv (fsqrt newPlanetMass) (Fin 4);
          radius = (if flt radius (Fin 1) then Fin 1 else radius)
      in \<lparr>position = start, velocity = velocity, mass = newPlanetMass, radius = radius,
          color = (if fgt newPlanetMass (Fin 1000) then RED else WHITE), isFixed = False\<rparr>)"

text \<open>Lines 143 to 161: the release of an active gesture.\<close>

definition gesture_release ::
  "cfloat \<Rightarrow> PlanetBuilder \<times> Body list \<Rightarrow> PlanetBuilder \<times> Body list" where
  "gesture_release newPlanetMass st =
     (let (builder, bodies) = st;
          diff = Vector3Subtract (endPos builder) (startPos builder);
          bodies = (if fgt (Vector3Length diff) (Fin 2)
                    then bodies @ [new_body (startPos builder) diff newPlanetMass]
                    else bodies)
      in (builder\<lparr>active := False\<rparr>, bodies))"

text \<open>Lines 135 to 162: the creation logic of one frame.\<close>

definition builder_frame ::
  "bool \<Rightarrow> bool \<Rightarrow> Pointer \<Rightarrow> cfloat \<Rightarrow> PlanetBuilder \<times> Body list \<Rightarrow> PlanetBuilder \<times> Body list"
  where
  "builder_frame isCreateMode touchingUI p newPlanetMass st =
     (if isCreateMode \<and> \<not> touchingUI
      then (let (builder, bodies) = st;
                builder = gesture_track p builder
            in if released p \<and> active builder
               then gesture_release newPlanetMass (builder, bodies)
               else (builder, bodies))
      else st)"

text \<open>The state at startup (lines 96, 97 and 109).\<close>

definition initial_bodies :: "Body list" where
  "initial_bodies =
     [\<lparr>position = Vector3 (Fin 0) (Fin 0) (Fin 0), velocity = Vector3 (Fin 0) (Fin 0) (Fin 0),
       mass = Fin 5000, radius = Fin 10, color = GOLD, isFixed = True\<rparr>,
      \<lparr>position = Vector3 (Fin 50) (Fin 0) (Fin 0), velocity = Vector3 (Fin 0) (Fin 0) (Fin 310),
       mass = Fin 100, radius = Fin 3, color = SKYBLUE, isFixed = False\<rparr>]"

definition initial_builder :: PlanetBuilder where
  "initial_builder = \<lparr>active = False, startPos = Vector3 (Fin 0) (Fin 0) (Fin 0),
                       endPos = Vector3 (Fin 0) (Fin 0) (Fin 0)\<rparr>"

section \<open>The mass slider\<close>

text \<open>
  Lines 232 to 235. \<open>GetMouseX\<close>, \<open>GetMouseY\<close> and \<open>screenW\<close> are C ints, far from the
  bounds of their type; they are integers here, converted to float where the code does.
\<close>

definition slider_update :: "bool \<Rightarrow> int \<Rightarrow> int \<Rightarrow> int \<Rightarrow> cfloat \<Rightarrow> cfloat" where
  "slider_update isDown mouseX mouseY screenW newPlanetMass =
     (if isDown \<and> mouseY < 60 \<and> mouseX > 120
      then (let clickPct = fdiv (fsub (Fin (of_int mouseX)) (Fin 120))
                             (Fin (of_int (screenW - 140)))
            in fadd (Fin 10) (fmul clickPct (Fin 2000)))
      else newPlanetMass)"

text \<open>Line 229: the filled fraction of the slider bar drawn for a mass.\<close>

definition massPercent :: "cfloat \<Rightarrow> cfloat" where
  "massPercent newPlanetMass = fdiv (fsub newPlanetMass (Fin 10)) (fsub (Fin 2000) (Fin 10))"

section \<open>The integrator\<close>

text \<open>
  Lines 173 to 177: the locals \<open>diff\<close> and \<open>force\<close> that the inner loop computes for body
  \<open>i\<close> and another body \<open>j\<close>.
\<close>

definition force_terms :: "Body \<Rightarrow> Body \<Rightarrow> Vector3 \<times> cfloat" where
  "force_terms bi bj =
     (let diff = Vector3Subtract (position bj) (position bi);
          distSq = Vector3LengthSqr diff;
          dist = fsqrt distSq;
          dist = (if flt dist (fadd (radius bi) (radius bj))
                  then fadd (radius bi) (radius bj) else dist);
          force = fdiv (fmul (fmul G (mass bi)) (mass bj)) distSq
      in (diff, force))"

text \<open>
  Lines 170 to 179: the force accumulated on body \<open>i\<close>; \<open>acc\<close> is the running value of
  the local \<open>totalForce\<close>.
\<close>

definition add_force :: "Body list \<Rightarrow> nat \<Rightarrow> nat \<Rightarrow> Vector3 \<Rightarrow> Vector3" where
  "add_force bodies i j acc =
     (if i = j then acc
      else (let (diff, force) = force_terms (bodies ! i) (bodies ! j)
            in Vector3Add acc (Vector3Scale (Vector3Normalize diff) force)))"

definition totalForce :: "Body list \<Rightarrow> nat \<Rightarrow> Vector3" where
  "totalForce bodies i = fold (add_force bodies i) [0..<length bodies] Vector3Zero"

text \<open>
  Lines 168 to 181: the velocity loop; \<open>new_velocity\<close> is the right-hand side of line 180.
  The loop writes \<open>bodies[i].velocity\<close> in place, so the force on a later body is computed
  from the list as the earlier iterations left it.
\<close>

definition new_velocity :: "cfloat \<Rightarrow> Body list \<Rightarrow> nat \<Rightarrow> Vector3" where
  "new_velocity dt bodies i =
     Vector3Add (velocity (bodies ! i))
       (Vector3Scale (Vector3Scale (totalForce bodies i) (fdiv (Fin 1) (mass (bodies ! i)))) dt)"

definition update_velocity :: "cfloat \<Rightarrow> nat \<Rightarrow> Body list \<Rightarrow> Body list" where
  "update_velocity dt i bodies =
     (if isFixed (bodies ! i) then bodies
      else bodies[i := (bodies ! i)\<lparr>velocity := new_velocity dt bodies i\<rparr>])"

definition velocity_pass :: "cfloat \<Rightarrow> Body list \<Rightarrow> Body list" where
  "velocity_pass dt bodies = fold (update_velocity dt) [0..<length bodies] bodies"

text \<open>Lines 182 to 184: the position loop.\<close>

definition update_position :: "cfloat \<Rightarrow> Body \<Rightarrow> Body" where
  "update_position dt b =
     (if \<not> isFixed b then b\<lparr>position := Vector3Add (position b) (Vector3Scale (velocity b) dt)\<rparr>
      else b)"

definition position_pass :: "cfloat \<Rightarrow> Body list \<Rightarrow> Body list" where
  "position_pass dt bodies = map (update_position dt) bodies"

definition substep :: "cfloat \<Rightarrow> Body list \<Rightarrow> Body list" where
  "substep dt bodies = position_pass dt (velocity_pass dt bodies)"

text \<open>Lines 165 to 186: the physics of one frame.\<close>

definition physics :: "bool \<Rightarrow> cfloat \<Rightarrow> Body list \<Rightarrow> Body list" where
  "physics isPaused timeSpeed bodies =
     (if \<not> isPaused
      then (let dt = fmul BASE_DT timeSpeed
            in fold (\<lambda>step. substep dt) [0..<SUBSTEPS] bodies)
      else bodies)"

text \<open>
  The integrator with line 176, the clamp of \<open>dist\<close>, deleted: the variant the code is
  compared with.
\<close>

definition force_terms_noclamp :: "Body \<Rightarrow> Body \<Rightarrow> Vector3 \<times> cfloat" where
  "force_terms_noclamp bi bj =
     (let diff = Vector3Subtract (position bj) (position bi);
          distSq = Vector3LengthSqr diff;
          dist = fsqrt distSq;
          force = fdiv (fmul (fmul G (mass bi)) (mass bj)) distSq
      in (diff, force))"

definition add_force_noclamp :: "Body list \<Rightarrow> nat \<Rightarrow> nat \<Rightarrow> Vector3 \<Rightarrow> Vector3" where
  "add_force_noclamp bodies i j acc =
     (if i = j then acc
      else (let (diff, force) = force_terms_noclamp (bodies ! i) (bodies ! j)
            in Vector3Add acc (Vector3Scale (Vector3Normalize diff) force)))"

definition totalForce_noclamp :: "Body list \<Rightarrow> nat \<Rightarrow> Vector3" where
  "totalForce_noclamp bodies i =
     fold (add_force_noclamp bodies i) [0..<length bodies] Vector3Zero"

definition update_velocity_noclamp :: "cfloat \<Rightarrow> nat \<Rightarrow> Body list \<Rightarrow> Body list" where
  "update_velocity_noclamp dt i bodies =
     (if isFixed (bodies ! i) then bodies
      else bodies[i := (bodies ! i)\<lparr>velocity :=
             Vector3Add (velocity (bodies ! i))
               (Vector3Scale (Vector3Scale (totalForce_noclamp bodies i)
                                (fdiv (Fin 1) (mass (bodies ! i)))) dt)\<rparr>])"

definition velocity_pass_noclamp :: "cfloat \<Rightarrow> Body list \<Rightarrow> Body list" where
  "velocity_pass_noclamp dt bodies =
     fold (update_velocity_noclamp dt) [0..<length bodies] bodies"

definition substep_noclamp :: "cfloat \<Rightarrow> Body list \<Rightarrow> Body list" where
  "substep_noclamp dt bodies = position_pass dt (velocity_pass_noclamp dt bodies)"

text \<open>The total momentum of the bodies: the sum of \<open>mass * velocity\<close>.\<close>

definition total_momentum :: "Body list \<Rightarrow> Vector3" where
  "total_momentum bodies =
     fold (\<lambda>b p. Vector3Add p (Vector3Scale (velocity b) (mass b))) bodies Vector3Zero"

section \<open>Finite values\<close>

definition fin_vec :: "Vector3 \<Rightarrow> bool" where
  "fin_vec v = (is_fin (vx v) \<and> is_fin (vy v) \<and> is_fin (vz v))"

definition fin_body :: "Body \<Rightarrow> bool" where
  "fin_body b = (fin_vec (position b) \<and> fin_vec (velocity b) \<and> is_fin (mass b) \<and> is_fin (radius b))"

text \<open>
  The depression one body causes at \<open>(x, z)\<close> as the specification words it, on real numbers.
\<close>

definition depression_of :: "real \<Rightarrow> real \<Rightarrow> Body \<Rightarrow> real" where
  "depression_of x z b =
     (if 50 \<le> rl (mass b)
      then min 40 ((rl (mass b) * (1 / 2)) /
             ((x - rl (vx (position b)))\<^sup>2 + (z - rl (vz (position b)))\<^sup>2 + 60))
      else 0)"

text \<open>
  The force between two bodies in exact real arithmetic, by component: the component
  \<open>c\<close> of the normalised difference of the positions times \<open>G * mass * mass / distSq\<close>;
  the sum of these over the other bodies; and a component of the total momentum.
\<close>

definition sq_distance :: "Body \<Rightarrow> Body \<Rightarrow> real" where
  "sq_distance bi bj =
     (rl (vx (position bj)) - rl (vx (position bi)))\<^sup>2
     + (rl (vy (position bj)) - rl (vy (position bi)))\<^sup>2
     + (rl (vz (position bj)) - rl (vz (position bi)))\<^sup>2"

definition pull :: "(Vector3 \<Rightarrow> cfloat) \<Rightarrow> Body \<Rightarrow> Body \<Rightarrow> real" where
  "pull c bi bj =
     (rl (c (position bj)) - rl (c (position bi))) * (1 / sqrt (sq_distance bi bj))
     * (500 * rl (mass bi) * rl (mass bj) / sq_distance bi bj)"

definition net_pull :: "(Vector3 \<Rightarrow> cfloat) \<Rightarrow> Body list \<Rightarrow> nat \<Rightarrow> real" where
  "net_pull c bodies i =
     (\<Sum>j<length bodies. if i = j then 0 else pull c (bodies ! i) (bodies ! j))"

definition momentum :: "(Vector3 \<Rightarrow> cfloat) \<Rightarrow> Body list \<Rightarrow> real" where
  "momentum c bodies = (\<Sum>b\<leftarrow>bodies. rl (c (velocity b)) * rl (mass b))"

section \<open>Evaluating square roots\<close>

lemma sqrt_9: "sqrt 9 = 3"
  using real_sqrt_abs [of 3] by simp

lemma sqrt_256: "sqrt 256 = 16"
  using real_sqrt_abs [of 16] by simp

lemma is_fin_iff: "is_fin a \<longleftrightarrow> a = Fin (rl a)"
  by (cases a) auto

section \<open>The curvature sampler on finite values\<close>

lemma curve_body_fin:
  assumes "fin_body b"
  shows "curve_body (Fin x) (Fin z) b (Fin y) = Fin (y - depression_of x z b)"
proof -
  obtain m px pz where m: "mass b = Fin m" and px: "vx (position b) = Fin px"
    and pz: "vz (position b) = Fin pz"
    using assms by (auto simp: fin_body_def fin_vec_def is_fin_iff)
  have pos: "(x - px) * (x - px) + (z - pz) * (z - pz) + 60 \<noteq> 0"
    by (smt (verit) zero_le_square)
  show ?thesis
    using pos
    by (simp add: curve_body_def depression_of_def m px pz Vector2LengthSqr_def
        Vector2Subtract_def fsub_def fgt_def Let_def power2_eq_square min_def)
qed

lemma fold_curve_fin:
  assumes "\<forall>b \<in> set bs. fin_body b"
  shows "fold (curve_body (Fin x) (Fin z)) bs (Fin y)
         = Fin (y - sum_list (map (depression_of x z) bs))"
  using assms
  by (induction bs arbitrary: y) (simp_all add: curve_body_fin algebra_simps)

lemma depression_le: "depression_of x z b \<le> 40"
  by (simp add: depression_of_def)

text \<open>
  C5. On finite inputs \<open>GetSpacetimeCurve\<close> returns \<open>-15\<close> minus the sum, over the bodies, of
  \<open>min 40 ((mass * 0.5) / (planar squared distance + 60))\<close> for a body of mass at least 50
  and of nothing for a lighter body. For a single body the result is a finite number not
  below \<open>-15 - 40\<close>, whatever its mass.
\<close>

theorem GetSpacetimeCurve_value:
  assumes "\<forall>b \<in> set bodies. fin_body b" and "fin_body b1"
  shows "GetSpacetimeCurve (Fin x) (Fin z) bodies
           = Fin (- 15 - sum_list (map (depression_of x z) bodies))
         \<and> (\<exists>h. GetSpacetimeCurve (Fin x) (Fin z) [b1] = Fin h \<and> - 15 - 40 \<le> h)"
  using assms depression_le [of x z b1]
  by (simp add: GetSpacetimeCurve_def fold_curve_fin curve_body_fin)

theorem GetSpacetimeCurve_value_witness:
  "list_all fin_body initial_bodies \<and> fin_body (hd initial_bodies)
   \<and> GetSpacetimeCurve (Fin 0) (Fin 0) initial_bodies = Fin (- 15 - 40 - 5 / 256)
   \<and> (\<exists>h. GetSpacetimeCurve (Fin 0) (Fin 0) [hd initial_bodies] = Fin h \<and> - 15 - 40 \<le> h)"
  using GetSpacetimeCurve_value [of initial_bodies "hd initial_bodies" 0 0]
  by (simp add: initial_bodies_def fin_body_def fin_vec_def depression_of_def)

section \<open>The builder\<close>

text \<open>
  C6. In create mode with the pointer off the interface, the release of an active gesture
  deactivates the builder; with \<open>diff = endPos - startPos\<close>, it leaves the registry as it
  was when \<open>|diff| <= 2.0\<close>, and when \<open>|diff| > 2.0\<close> it appends exactly one body, whose
  position is \<open>startPos\<close>, velocity \<open>diff * 5.0\<close>, mass the selected mass, radius
  \<open>max 1 (sqrt mass / 4)\<close> and which is not fixed. The selected mass is a non-negative
  number.
\<close>

theorem builder_release:
  assumes "isCreateMode" and "\<not> touchingUI" and "released p"
    and "active (gesture_track p builder)" and "0 \<le> m"
  shows "let b = gesture_track p builder;
             diff = Vector3Subtract (endPos b) (startPos b);
             r = builder_frame isCreateMode touchingUI p (Fin m) (builder, bodies)
         in \<not> active (fst r)
            \<and> (fle (Vector3Length diff) (Fin 2) \<longrightarrow> snd r = bodies)
            \<and> (fgt (Vector3Length diff) (Fin 2) \<longrightarrow>
                 (\<exists>nb. snd r = bodies @ [nb] \<and> position nb = startPos b
                    \<and> velocity nb = Vector3Scale diff (Fin 5) \<and> mass nb = Fin m
                    \<and> radius nb = Fin (max 1 (sqrt m / 4)) \<and> \<not> isFixed nb))"
  using assms
  by (auto simp: builder_frame_def gesture_release_def new_body_def Let_def fle_def fgt_def
      max_def)

theorem builder_release_witness:
  "builder_frame True False
     \<lparr>pressed = False, down = False, released = True,
      mousePos3D = Vector3 (Fin 3) (Fin 0) (Fin 0)\<rparr>
     (Fin 256)
     (\<lparr>active = True, startPos = Vector3 (Fin 0) (Fin 0) (Fin 0),
       endPos = Vector3 (Fin 3) (Fin 0) (Fin 0)\<rparr>, initial_bodies)
   = (\<lparr>active = False, startPos = Vector3 (Fin 0) (Fin 0) (Fin 0),
       endPos = Vector3 (Fin 3) (Fin 0) (Fin 0)\<rparr>,
      initial_bodies @ [\<lparr>position = Vector3 (Fin 0) (Fin 0) (Fin 0),
         velocity = Vector3 (Fin 15) (Fin 0) (Fin 0), mass = Fin 256, radius = Fin 4,
         color = WHITE, isFixed = False\<rparr>])"
  using builder_release [of True False
     "\<lparr>pressed = False, down = False, released = True,
      mousePos3D = Vector3 (Fin 3) (Fin 0) (Fin 0)\<rparr>"
     "\<lparr>active = True, startPos = Vector3 (Fin 0) (Fin 0) (Fin 0),
       endPos = Vector3 (Fin 3) (Fin 0) (Fin 0)\<rparr>" 256 initial_bodies]
  by (simp add: builder_frame_def gesture_track_def gesture_release_def new_body_def
        Vector3Subtract_def Vector3Length_def Vector3LengthSqr_def Vector3Scale_def
        fsub_def fgt_def sqrt_9 sqrt_256)

text \<open>
  C7, as the specification states it, fails: at a selected mass of exactly 1000, which the
  slider yields on a screen 2140 wide at \<open>x = 1110\<close>, the created body gets the light colour.
\<close>

theorem builder_color_at_1000:
  "slider_update True 1110 30 2140 (Fin 200) = Fin 1000
   \<and> color (new_body (Vector3 (Fin 0) (Fin 0) (Fin 0)) (Vector3 (Fin 3) (Fin 0) (Fin 0))
        (Fin 1000)) = WHITE"
  by (simp add: slider_update_def new_body_def fsub_def fgt_def)

text \<open>
  C7, amended. A frame of the builder either leaves the registry as it was or appends one
  body, whose colour is the heavy one (red) when the selected mass is greater than 1000 and
  the light one (white) when it is 1000 or less.
\<close>

theorem builder_color:
  "snd (builder_frame isCreateMode touchingUI p (Fin m) (builder, bodies)) = bodies
   \<or> (\<exists>nb. snd (builder_frame isCreateMode touchingUI p (Fin m) (builder, bodies))
              = bodies @ [nb]
         \<and> color nb = (if 1000 < m then RED else WHITE))"
  by (auto simp: builder_frame_def gesture_release_def new_body_def Let_def fgt_def)

text \<open>
  C8, amended. When the ray is parallel to the plane or points away from it,
  \<open>GetMouseOnPlane\<close> returns the zero vector, and the builder takes it as it takes any
  other point: a press in create mode starts the gesture with \<open>startPos\<close> the zero vector
  and a held button moves \<open>endPos\<close> there.
\<close>

theorem degenerate_projection:
  assumes "flt (ffabs (vy (ray_direction ray))) (Fin (1 / 1000))
           \<or> flt (fdiv (fneg (vy (ray_position ray))) (vy (ray_direction ray))) (Fin 0)"
    and "mousePos3D p = GetMouseOnPlane ray" and "\<not> released p"
  shows "GetMouseOnPlane ray = Vector3Zero
         \<and> (pressed p \<longrightarrow>
              (let r = builder_frame True False p newPlanetMass (builder, bodies)
               in active (fst r) \<and> startPos (fst r) = Vector3Zero \<and> snd r = bodies))
         \<and> (down p \<longrightarrow>
              endPos (fst (builder_frame True False p newPlanetMass (builder, bodies)))
                = Vector3Zero)"
  using assms
  by (auto simp: GetMouseOnPlane_def builder_frame_def gesture_track_def Let_def)

theorem degenerate_projection_witness:
  "builder_frame True False
     \<lparr>pressed = True, down = True, released = False,
      mousePos3D = GetMouseOnPlane
        \<lparr>ray_position = Vector3 (Fin 0) (Fin 150) (Fin 120),
         ray_direction = Vector3 (Fin 1) (Fin 0) (Fin 0)\<rparr>\<rparr>
     (Fin 200) (initial_builder, initial_bodies)
   = (\<lparr>active = True, startPos = Vector3 (Fin 0) (Fin 0) (Fin 0),
       endPos = Vector3 (Fin 0) (Fin 0) (Fin 0)\<rparr>, initial_bodies)"
  using degenerate_projection [of
      "\<lparr>ray_position = Vector3 (Fin 0) (Fin 150) (Fin 120),
         ray_direction = Vector3 (Fin 1) (Fin 0) (Fin 0)\<rparr>"
      "\<lparr>pressed = True, down = True, released = False,
      mousePos3D = GetMouseOnPlane
        \<lparr>ray_position = Vector3 (Fin 0) (Fin 150) (Fin 120),
         ray_direction = Vector3 (Fin 1) (Fin 0) (Fin 0)\<rparr>\<rparr>" "Fin 200" initial_builder initial_bodies]
  by (simp add: GetMouseOnPlane_def builder_frame_def gesture_track_def initial_builder_def
      Vector3Zero_def)

text \<open>
  C8, as the specification states it, fails: from the state at startup, a press while the
  ray is parallel to the plane starts a gesture at the zero vector, and dragging to
  \<open>(3, 0, 0)\<close> and releasing creates a body at the zero position.
\<close>

theorem body_at_zero_from_degenerate_ray:
  "GetMouseOnPlane \<lparr>ray_position = Vector3 (Fin 0) (Fin 150) (Fin 120),
                    ray_direction = Vector3 (Fin 1) (Fin 0) (Fin 0)\<rparr>
     = Vector3 (Fin 0) (Fin 0) (Fin 0)
   \<and> GetMouseOnPlane \<lparr>ray_position = Vector3 (Fin 3) (Fin 1) (Fin 0),
                      ray_direction = Vector3 (Fin 0) (Fin (- 1)) (Fin 0)\<rparr>
     = Vector3 (Fin 3) (Fin 0) (Fin 0)
   \<and> snd (builder_frame True False
       \<lparr>pressed = False, down = False, released = True,
        mousePos3D = GetMouseOnPlane \<lparr>ray_position = Vector3 (Fin 3) (Fin 1) (Fin 0),
                      ray_direction = Vector3 (Fin 0) (Fin (- 1)) (Fin 0)\<rparr>\<rparr>
       (Fin 256)
       (builder_frame True False
          \<lparr>pressed = False, down = True, released = False,
           mousePos3D = GetMouseOnPlane \<lparr>ray_position = Vector3 (Fin 3) (Fin 1) (Fin 0),
                      ray_direction = Vector3 (Fin 0) (Fin (- 1)) (Fin 0)\<rparr>\<rparr>
          (Fin 256)
          (builder_frame True False
             \<lparr>pressed = True, down = True, released = False,
              mousePos3D = GetMouseOnPlane
                \<lparr>ray_position = Vector3 (Fin 0) (Fin 150) (Fin 120),
                 ray_direction = Vector3 (Fin 1) (Fin 0) (Fin 0)\<rparr>\<rparr>
             (Fin 256) (initial_builder, initial_bodies))))
     = initial_bodies @
       [\<lparr>position = Vector3 (Fin 0) (Fin 0) (Fin 0),
         velocity = Vector3 (Fin 15) (Fin 0) (Fin 0), mass = Fin 256, radius = Fin 4,
         color = WHITE, isFixed = False\<rparr>]"
  by (simp add: GetMouseOnPlane_def builder_frame_def gesture_track_def initial_builder_def
      Vector3Zero_def gesture_release_def new_body_def Vector3Add_def
        Vector3Subtract_def Vector3Length_def Vector3LengthSqr_def Vector3Scale_def
        fsub_def fgt_def sqrt_9 sqrt_256)

section \<open>The mass slider\<close>

text \<open>
  C9. On a screen 1000 wide the slider bar spans \<open>x = 120\<close> to \<open>x = 980\<close>. Holding the
  button at its right end selects the mass 2010, above the 2000 at which the drawn bar is
  full.
\<close>

theorem slider_exceeds_2000:
  "slider_update True 980 30 1000 (Fin 200) = Fin 2010 \<and> massPercent (Fin 2000) = Fin 1"
  by (simp add: slider_update_def massPercent_def fsub_def)

section \<open>The integrator\<close>

lemma force_terms_cong:
  assumes "position bi' = position bi" "position bj' = position bj"
    "mass bi' = mass bi" "mass bj' = mass bj" "radius bi' = radius bi" "radius bj' = radius bj"
  shows "force_terms bi' bj' = force_terms bi bj"
  unfolding force_terms_def assms ..

lemma totalForce_cong:
  assumes "map position bs' = map position bs" and "map mass bs' = map mass bs"
    and "map radius bs' = map radius bs" and "i < length bs"
  shows "totalForce bs' i = totalForce bs i"
proof -
  have len: "length bs' = length bs"
    using arg_cong [OF assms(1), of length] by simp
  have nth: "position (bs' ! k) = position (bs ! k) \<and> mass (bs' ! k) = mass (bs ! k)
             \<and> radius (bs' ! k) = radius (bs ! k)" if "k < length bs" for k
    using that len arg_cong [OF assms(1), of "\<lambda>xs. xs ! k"]
      arg_cong [OF assms(2), of "\<lambda>xs. xs ! k"] arg_cong [OF assms(3), of "\<lambda>xs. xs ! k"]
    by simp
  have "add_force bs' i j acc = add_force bs i j acc" if "j < length bs" for j acc
    using force_terms_cong [of "bs' ! i" "bs ! i" "bs' ! j" "bs ! j"] nth [OF that] nth [OF assms(4)]
    by (simp add: add_force_def)
  then have "fold (add_force bs' i) [0..<length bs] Vector3Zero
             = fold (add_force bs i) [0..<length bs] Vector3Zero"
    by (intro fold_cong) auto
  then show ?thesis
    by (simp add: totalForce_def len)
qed


text \<open>The list that the first \<open>k\<close> iterations of the velocity loop leave.\<close>

lemma velocity_loop:
  "k \<le> length bs \<Longrightarrow>
   fold (update_velocity dt) [0..<k] bs
     = map (\<lambda>i. if i < k \<and> \<not> isFixed (bs ! i)
                  then (bs ! i)\<lparr>velocity := new_velocity dt bs i\<rparr> else bs ! i)
         [0..<length bs]"
proof (induction k)
  case 0
  show ?case by (simp add: map_nth)
next
  case (Suc k)
  let ?f = "\<lambda>k i. if i < k \<and> \<not> isFixed (bs ! i)
                  then (bs ! i)\<lparr>velocity := new_velocity dt bs i\<rparr> else bs ! i"
  let ?r = "map (?f k) [0..<length bs]"
  have k: "k < length bs" using Suc.prems by simp
  have r: "fold (update_velocity dt) [0..<k] bs = ?r"
    using Suc by simp
  have rk: "?r ! k = bs ! k" using k by simp
  have pos: "map position ?r = map position bs" "map mass ?r = map mass bs"
    "map radius ?r = map radius bs"
    by (auto intro!: nth_equalityI)
  have tf: "totalForce ?r k = totalForce bs k"
    using pos k by (rule totalForce_cong)
  have nv: "new_velocity dt ?r k = new_velocity dt bs k"
    using k tf by (simp add: new_velocity_def)
  have "update_velocity dt k ?r = map (?f (Suc k)) [0..<length bs]"
  proof (rule nth_equalityI)
    show "length (update_velocity dt k ?r) = length (map (?f (Suc k)) [0..<length bs])"
      by (simp add: update_velocity_def)
  next
    fix i assume "i < length (update_velocity dt k ?r)"
    then have i: "i < length bs" by (simp add: update_velocity_def split: if_splits)
    show "update_velocity dt k ?r ! i = map (?f (Suc k)) [0..<length bs] ! i"
      using i k nv rk
      by (cases "i = k") (auto simp: update_velocity_def nth_list_update less_Suc_eq)
  qed
  then show ?case
    using r by simp
qed

lemma velocity_pass_eq:
  "velocity_pass dt bs
     = map (\<lambda>i. if \<not> isFixed (bs ! i)
                  then (bs ! i)\<lparr>velocity := new_velocity dt bs i\<rparr> else bs ! i)
         [0..<length bs]"
  using velocity_loop [of "length bs" bs dt]
  by (simp add: velocity_pass_def cong: map_cong)

lemma substep_nth:
  assumes "i < length bs"
  shows "substep dt bs ! i =
     (if isFixed (bs ! i) then bs ! i
      else (bs ! i)\<lparr>velocity := new_velocity dt bs i,
             position := Vector3Add (position (bs ! i)) (Vector3Scale (new_velocity dt bs i) dt)\<rparr>)"
  using assms
  by (simp add: substep_def position_pass_def velocity_pass_eq update_position_def)

lemma length_substep: "length (substep dt bs) = length bs"
  by (simp add: substep_def position_pass_def velocity_pass_eq)

lemma fixed_substeps:
  assumes "i < length bs" and "isFixed (bs ! i)"
  shows "length (fold substep dts bs) = length bs \<and> fold substep dts bs ! i = bs ! i"
  using assms
proof (induction dts arbitrary: bs)
  case Nil
  show ?case by simp
next
  case (Cons dt dts)
  have "i < length (substep dt bs)" "isFixed (substep dt bs ! i)" "substep dt bs ! i = bs ! i"
    using Cons.prems by (simp_all add: length_substep substep_nth)
  then show ?case
    using Cons.IH [of "substep dt bs"] by (simp add: length_substep)
qed

lemma totalForce_split:
  assumes "i < length bs" and "k \<noteq> i"
  shows "totalForce bs k =
     fold (add_force bs k) [Suc i..<length bs]
       (let (diff, force) = force_terms (bs ! k) (bs ! i)
        in Vector3Add (fold (add_force bs k) [0..<i] Vector3Zero)
             (Vector3Scale (Vector3Normalize diff) force))"
proof -
  have "[0..<length bs] = [0..<i] @ i # [Suc i..<length bs]"
    using assms(1) by (metis le0 upt_add_eq_append upt_conv_Cons le_add_diff_inverse less_imp_le)
  then show ?thesis
    using assms(2) by (simp add: totalForce_def add_force_def)
qed


lemma sqrt_2500: "sqrt 2500 = 50"
  using real_sqrt_abs [of 50] by simp

lemma fold_const: "fold (\<lambda>x. f) xs = f ^^ length xs"
  by (induction xs) (simp_all add: funpow_swap1 fun_eq_iff)

lemma totalForce_initial: "totalForce initial_bodies 1 = Vector3 (Fin (- 100000)) (Fin 0) (Fin 0)"
  by (simp add: totalForce_def add_force_def force_terms_def initial_bodies_def
      Vector3Subtract_def Vector3LengthSqr_def Vector3Length_def Vector3Normalize_def
      Vector3Scale_def Vector3Add_def Vector3Zero_def fsub_def G_def fneq_def feq_def
      sqrt_2500 Let_def upt_rec [of 0] upt_rec [of 1] upt_rec [of 2])

lemma new_velocity_initial:
  "new_velocity (Fin (5 / 10000)) initial_bodies 1 = Vector3 (Fin (- 1 / 2)) (Fin 0) (Fin 310)"
  unfolding new_velocity_def totalForce_initial
  by (simp add: initial_bodies_def Vector3Scale_def Vector3Add_def)

text \<open>
  C4. A substep keeps the number of bodies. Its velocity loop leaves every position as it
  was and gives each non-fixed body the velocity \<open>new_velocity\<close>, computed from the
  forces at the positions the substep started with; the position loop that follows moves
  each non-fixed body by that new velocity times \<open>dt\<close>. A frame that is not paused runs
  8 substeps with \<open>dt = BASE_DT * timeSpeed\<close>, where \<open>BASE_DT\<close> is 0.0005.
\<close>

theorem substep_order:
  "length (substep dt bodies) = length bodies
   \<and> map position (velocity_pass dt bodies) = map position bodies
   \<and> (\<forall>i<length bodies. velocity_pass dt bodies ! i =
         (if isFixed (bodies ! i) then bodies ! i
          else (bodies ! i)\<lparr>velocity := new_velocity dt bodies i\<rparr>))
   \<and> (\<forall>i<length bodies. substep dt bodies ! i =
         (if isFixed (bodies ! i) then bodies ! i
          else (bodies ! i)\<lparr>velocity := new_velocity dt bodies i,
                 position := Vector3Add (position (bodies ! i))
                               (Vector3Scale (new_velocity dt bodies i) dt)\<rparr>))
   \<and> physics False timeSpeed bodies = (substep (fmul BASE_DT timeSpeed) ^^ 8) bodies
   \<and> BASE_DT = Fin (5 / 10000)"
proof -
  have "map position (velocity_pass dt bodies) = map position bodies"
    by (rule nth_equalityI) (simp_all add: velocity_pass_eq)
  moreover have "\<forall>i<length bodies. velocity_pass dt bodies ! i =
         (if isFixed (bodies ! i) then bodies ! i
          else (bodies ! i)\<lparr>velocity := new_velocity dt bodies i\<rparr>)"
    by (simp add: velocity_pass_eq)
  moreover have "physics False timeSpeed bodies = (substep (fmul BASE_DT timeSpeed) ^^ 8) bodies"
    by (simp add: physics_def fold_const SUBSTEPS_def)
  ultimately show ?thesis
    by (simp add: length_substep substep_nth BASE_DT_def)
qed

theorem substep_order_witness:
  "substep (Fin (5 / 10000)) initial_bodies ! 1
     = \<lparr>position = Vector3 (Fin (50 - 1 / 4000)) (Fin 0) (Fin (155 / 1000)),
        velocity = Vector3 (Fin (- 1 / 2)) (Fin 0) (Fin 310),
        mass = Fin 100, radius = Fin 3, color = SKYBLUE, isFixed = False\<rparr>
   \<and> physics False (Fin 1) initial_bodies = (substep (Fin (5 / 10000)) ^^ 8) initial_bodies"
proof -
  have len: "1 < length initial_bodies"
    by (simp add: initial_bodies_def)
  have "substep (Fin (5 / 10000)) initial_bodies ! 1 =
         (if isFixed (initial_bodies ! 1) then initial_bodies ! 1
          else (initial_bodies ! 1)\<lparr>velocity := new_velocity (Fin (5 / 10000)) initial_bodies 1,
                 position := Vector3Add (position (initial_bodies ! 1))
                    (Vector3Scale (new_velocity (Fin (5 / 10000)) initial_bodies 1)
                       (Fin (5 / 10000)))\<rparr>)"
    using substep_order [of "Fin (5 / 10000)" initial_bodies "Fin 1"] len by blast
  moreover have "physics False (Fin 1) initial_bodies
                 = (substep (fmul BASE_DT (Fin 1)) ^^ 8) initial_bodies"
    using substep_order [of "Fin (5 / 10000)" initial_bodies "Fin 1"] by blast
  ultimately show ?thesis
    unfolding new_velocity_initial
    by (simp add: BASE_DT_def initial_bodies_def Vector3Add_def Vector3Scale_def)
qed

text \<open>
  C3. A fixed body is left as it is, position and velocity included, by any sequence of
  substeps and by the physics of a frame, while the force accumulated on every other body
  \<open>k\<close> includes the term of the pair \<open>(k, i)\<close> for the fixed body \<open>i\<close>.
\<close>

theorem fixed_body_invariant:
  assumes "i < length bodies" and "isFixed (bodies ! i)"
  shows "fold substep dts bodies ! i = bodies ! i
         \<and> physics isPaused timeSpeed bodies ! i = bodies ! i
         \<and> (\<forall>k<length bodies. k \<noteq> i \<longrightarrow> totalForce bodies k =
               fold (add_force bodies k) [Suc i..<length bodies]
                 (let (diff, force) = force_terms (bodies ! k) (bodies ! i)
                  in Vector3Add (fold (add_force bodies k) [0..<i] Vector3Zero)
                       (Vector3Scale (Vector3Normalize diff) force)))"
proof -
  have "fold (\<lambda>step. substep dt) steps bodies = fold substep (map (\<lambda>step. dt) steps) bodies"
    for dt and steps :: "nat list"
    by (simp add: fold_map comp_def)
  then have "physics isPaused timeSpeed bodies ! i = bodies ! i"
    using fixed_substeps [OF assms] by (simp add: physics_def)
  then show ?thesis
    using fixed_substeps [OF assms] totalForce_split [OF assms(1)] by blast
qed

theorem fixed_body_invariant_witness:
  "fold substep [Fin (5 / 10000), Fin (1 / 1000), Fin 3] initial_bodies ! 0 = initial_bodies ! 0
   \<and> physics False (Fin 1) initial_bodies ! 0 = initial_bodies ! 0
   \<and> totalForce initial_bodies 1 = Vector3 (Fin (- 100000)) (Fin 0) (Fin 0)"
proof -
  have "0 < length initial_bodies" "isFixed (initial_bodies ! 0)"
    by (simp_all add: initial_bodies_def)
  then show ?thesis
    using fixed_body_invariant [of 0 initial_bodies "[Fin (5 / 10000), Fin (1 / 1000), Fin 3]"
        False "Fin 1"] totalForce_initial
    by blast
qed

subsection \<open>Momentum\<close>

lemma sq_distance_sym: "sq_distance bi bj = sq_distance bj bi"
  by (simp add: sq_distance_def power2_commute)

lemma pull_antisym: "pull c bi bj = - pull c bj bi"
proof -
  have "(p - q) * k * (500 * m * n / d) = - ((q - p) * k * (500 * n * m / d))"
    for p q k m n d :: real
  proof -
    have "p - q = - (q - p)" by simp
    then show ?thesis
      by (simp only: mult_minus_left mult.commute [of m n] mult.assoc)
  qed
  then show ?thesis
    unfolding pull_def sq_distance_sym [of bi bj] by blast
qed

lemma fin_vec_cases:
  assumes "fin_vec v"
  obtains a b c where "v = Vector3 (Fin a) (Fin b) (Fin c)"
  using assms by (cases v) (auto simp: fin_vec_def is_fin_iff)

lemma sq_distance_pos:
  assumes "fin_vec (position bi)" and "fin_vec (position bj)" and "position bi \<noteq> position bj"
  shows "0 < sq_distance bi bj"
proof -
  obtain a b c where pi: "position bi = Vector3 (Fin a) (Fin b) (Fin c)"
    using assms(1) by (rule fin_vec_cases)
  obtain d e f where pj: "position bj = Vector3 (Fin d) (Fin e) (Fin f)"
    using assms(2) by (rule fin_vec_cases)
  have "d - a \<noteq> 0 \<or> e - b \<noteq> 0 \<or> f - c \<noteq> 0"
    using assms(3) by (auto simp: pi pj)
  then have "0 < (d - a)\<^sup>2 + (e - b)\<^sup>2 + (f - c)\<^sup>2"
    by (metis add_pos_nonneg add_nonneg_pos zero_le_power2 zero_less_power2 add_nonneg_nonneg)
  then show ?thesis
    by (simp add: sq_distance_def pi pj)
qed

lemma pair_force_fin:
  assumes "fin_body bi" and "fin_body bj" and "position bi \<noteq> position bj"
  shows "(let (diff, force) = force_terms bi bj
          in Vector3Scale (Vector3Normalize diff) force)
         = Vector3 (Fin (pull vx bi bj)) (Fin (pull vy bi bj)) (Fin (pull vz bi bj))"
proof -
  obtain a b c where pi: "position bi = Vector3 (Fin a) (Fin b) (Fin c)"
    using assms(1) by (auto simp: fin_body_def elim: fin_vec_cases)
  obtain d e f where pj: "position bj = Vector3 (Fin d) (Fin e) (Fin f)"
    using assms(2) by (auto simp: fin_body_def elim: fin_vec_cases)
  obtain mi mj where m: "mass bi = Fin mi" "mass bj = Fin mj"
    using assms(1,2) by (auto simp: fin_body_def is_fin_iff)
  have "0 < sq_distance bi bj"
    using assms by (simp add: sq_distance_pos fin_body_def)
  then have d2: "0 < (d - a) * (d - a) + (e - b) * (e - b) + (f - c) * (f - c)"
    by (simp add: sq_distance_def pi pj power2_eq_square)
  then have nz: "(d - a) * (d - a) + (e - b) * (e - b) + (f - c) * (f - c) \<noteq> 0"
    and snz: "sqrt ((d - a) * (d - a) + (e - b) * (e - b) + (f - c) * (f - c)) \<noteq> 0"
    by simp_all
  show ?thesis
    using nz snz d2
    by (simp add: force_terms_def Let_def pi pj m Vector3Subtract_def Vector3LengthSqr_def
        Vector3Length_def Vector3Normalize_def Vector3Scale_def fsub_def G_def fneq_def feq_def
        pull_def sq_distance_def power2_eq_square)
qed


lemma add_force_fin:
  assumes "\<forall>b \<in> set bs. fin_body b" and "distinct (map position bs)"
    and "i < length bs" and "j < length bs"
  shows "add_force bs i j (Vector3 (Fin a) (Fin b) (Fin c))
         = Vector3 (Fin (a + (if i = j then 0 else pull vx (bs ! i) (bs ! j))))
                   (Fin (b + (if i = j then 0 else pull vy (bs ! i) (bs ! j))))
                   (Fin (c + (if i = j then 0 else pull vz (bs ! i) (bs ! j))))"
proof (cases "i = j")
  case True
  then show ?thesis by (simp add: add_force_def)
next
  case False
  have "position (bs ! i) \<noteq> position (bs ! j)"
    using assms(2-4) False nth_eq_iff_index_eq [of "map position bs" i j] by simp
  moreover have "fin_body (bs ! i)" "fin_body (bs ! j)"
    using assms(1,3,4) by simp_all
  ultimately have "(let (diff, force) = force_terms (bs ! i) (bs ! j)
          in Vector3Scale (Vector3Normalize diff) force)
         = Vector3 (Fin (pull vx (bs ! i) (bs ! j))) (Fin (pull vy (bs ! i) (bs ! j)))
             (Fin (pull vz (bs ! i) (bs ! j)))"
    by (simp add: pair_force_fin)
  then show ?thesis
    using False by (simp add: add_force_def Vector3Add_def split: prod.splits)
qed

lemma fold_add_force_fin:
  assumes "\<forall>b \<in> set bs. fin_body b" and "distinct (map position bs)"
    and "i < length bs" and "\<forall>j \<in> set js. j < length bs"
  shows "fold (add_force bs i) js (Vector3 (Fin a) (Fin b) (Fin c))
         = Vector3
             (Fin (a + (\<Sum>j\<leftarrow>js. if i = j then 0 else pull vx (bs ! i) (bs ! j))))
             (Fin (b + (\<Sum>j\<leftarrow>js. if i = j then 0 else pull vy (bs ! i) (bs ! j))))
             (Fin (c + (\<Sum>j\<leftarrow>js. if i = j then 0 else pull vz (bs ! i) (bs ! j))))"
  using assms(4)
proof (induction js arbitrary: a b c)
  case Nil
  show ?case by simp
next
  case (Cons j js)
  have j: "j < length bs" using Cons.prems by simp
  show ?case
    using Cons.prems
    by (simp add: add_force_fin [OF assms(1-3) j] Cons.IH add.assoc)
qed

lemma totalForce_fin:
  assumes "\<forall>b \<in> set bs. fin_body b" and "distinct (map position bs)" and "i < length bs"
  shows "totalForce bs i
         = Vector3 (Fin (net_pull vx bs i)) (Fin (net_pull vy bs i)) (Fin (net_pull vz bs i))"
proof -
  have "(\<Sum>j\<leftarrow>[0..<length bs]. f j) = (\<Sum>j<length bs. f j)" for f :: "nat \<Rightarrow> real"
    by (simp add: interv_sum_list_conv_sum_set_nat lessThan_atLeast0)
  then show ?thesis
    using fold_add_force_fin [OF assms, of "[0..<length bs]" 0 0 0]
    by (simp add: totalForce_def Vector3Zero_def net_pull_def)
qed

lemma new_velocity_fin:
  assumes "\<forall>b \<in> set bs. fin_body b" and "distinct (map position bs)" and "i < length bs"
    and "mass (bs ! i) \<noteq> Fin 0"
  shows "new_velocity (Fin h) bs i
         = Vector3
             (Fin (rl (vx (velocity (bs ! i))) + net_pull vx bs i * (1 / rl (mass (bs ! i))) * h))
             (Fin (rl (vy (velocity (bs ! i))) + net_pull vy bs i * (1 / rl (mass (bs ! i))) * h))
             (Fin (rl (vz (velocity (bs ! i))) + net_pull vz bs i * (1 / rl (mass (bs ! i))) * h))"
proof -
  have fb: "fin_body (bs ! i)" using assms(1,3) by simp
  obtain a b c where v: "velocity (bs ! i) = Vector3 (Fin a) (Fin b) (Fin c)"
    using fb by (auto simp: fin_body_def elim: fin_vec_cases)
  obtain m where m: "mass (bs ! i) = Fin m"
    using fb by (auto simp: fin_body_def is_fin_iff)
  have "m \<noteq> 0" using assms(4) m by simp
  then show ?thesis
    by (simp add: new_velocity_def totalForce_fin [OF assms(1-3)] v m Vector3Scale_def
        Vector3Add_def)
qed

lemma momentum_Cons:
  "momentum c (x # xs) = rl (c (velocity x)) * rl (mass x) + momentum c xs"
  by (simp add: momentum_def)

lemma total_momentum_fold:
  assumes "\<forall>b \<in> set bs. fin_vec (velocity b) \<and> is_fin (mass b)"
  shows "fold (\<lambda>b p. Vector3Add p (Vector3Scale (velocity b) (mass b))) bs
           (Vector3 (Fin a) (Fin b) (Fin c))
         = Vector3 (Fin (a + momentum vx bs)) (Fin (b + momentum vy bs))
             (Fin (c + momentum vz bs))"
  using assms
proof (induction bs arbitrary: a b c)
  case Nil
  show ?case by (simp add: momentum_def)
next
  case (Cons x xs)
  obtain p q r where v: "velocity x = Vector3 (Fin p) (Fin q) (Fin r)"
    using Cons.prems by (auto elim: fin_vec_cases)
  obtain m where m: "mass x = Fin m"
    using Cons.prems by (auto simp: is_fin_iff)
  have step: "Vector3Add (Vector3 (Fin a) (Fin b) (Fin c)) (Vector3Scale (velocity x) (mass x))
              = Vector3 (Fin (a + p * m)) (Fin (b + q * m)) (Fin (c + r * m))"
    by (simp add: v m Vector3Add_def Vector3Scale_def)
  have rest: "\<forall>b \<in> set xs. fin_vec (velocity b) \<and> is_fin (mass b)"
    using Cons.prems by simp
  have vm: "rl (vx (velocity x)) = p" "rl (vy (velocity x)) = q" "rl (vz (velocity x)) = r"
    "rl (mass x) = m"
    by (simp_all add: v m)
  show ?case
    by (simp only: fold_Cons comp_def step Cons.IH [OF rest] momentum_Cons vm add.assoc)
qed

lemma total_momentum_fin:
  assumes "\<forall>b \<in> set bs. fin_vec (velocity b) \<and> is_fin (mass b)"
  shows "total_momentum bs
         = Vector3 (Fin (momentum vx bs)) (Fin (momentum vy bs)) (Fin (momentum vz bs))"
  using total_momentum_fold [OF assms, of 0 0 0]
  by (simp add: total_momentum_def Vector3Zero_def)

lemma antisym_double_sum:
  fixes f :: "nat \<Rightarrow> nat \<Rightarrow> real"
  assumes "\<And>i j. f i j = - f j i"
  shows "(\<Sum>i<n. \<Sum>j<n. if i = j then 0 else f i j) = 0"
proof -
  let ?g = "\<lambda>i j. if i = j then 0 else f i j"
  have "(\<Sum>i<n. \<Sum>j<n. ?g i j) = (\<Sum>j<n. \<Sum>i<n. ?g i j)"
    by (rule sum.swap)
  also have "\<dots> = (\<Sum>j<n. \<Sum>i<n. - ?g j i)"
  proof (intro sum.cong refl)
    fix i j
    show "?g i j = - ?g j i"
      using assms [of i j] by (cases "i = j") simp_all
  qed
  also have "\<dots> = - (\<Sum>j<n. \<Sum>i<n. ?g j i)"
    by (simp add: sum_negf)
  finally show ?thesis by simp
qed

lemma net_pull_sum: "(\<Sum>i<length bs. net_pull c bs i) = 0"
  unfolding net_pull_def
  by (rule antisym_double_sum) (rule pull_antisym)


lemma momentum_nth:
  "momentum c bs = (\<Sum>i<length bs. rl (c (velocity (bs ! i))) * rl (mass (bs ! i)))"
proof -
  have "momentum c bs
        = (\<Sum>i = 0..<length bs. map (\<lambda>b. rl (c (velocity b)) * rl (mass b)) bs ! i)"
    unfolding momentum_def by (subst sum_list_sum_nth) simp
  also have "\<dots> = (\<Sum>i = 0..<length bs. rl (c (velocity (bs ! i))) * rl (mass (bs ! i)))"
    by (intro sum.cong refl) simp
  finally show ?thesis
    by (simp add: lessThan_atLeast0)
qed

lemma substep_body_fin:
  assumes "\<forall>b \<in> set bs. \<not> isFixed b \<and> fin_body b \<and> mass b \<noteq> Fin 0"
    and "distinct (map position bs)" and "i < length bs"
  shows "mass (substep (Fin h) bs ! i) = mass (bs ! i)"
    and "velocity (substep (Fin h) bs ! i)
         = Vector3
             (Fin (rl (vx (velocity (bs ! i))) + net_pull vx bs i * (1 / rl (mass (bs ! i))) * h))
             (Fin (rl (vy (velocity (bs ! i))) + net_pull vy bs i * (1 / rl (mass (bs ! i))) * h))
             (Fin (rl (vz (velocity (bs ! i))) + net_pull vz bs i * (1 / rl (mass (bs ! i))) * h))"
proof -
  have b: "\<not> isFixed (bs ! i)" "mass (bs ! i) \<noteq> Fin 0"
    using assms(1,3) by simp_all
  have fin: "\<forall>b \<in> set bs. fin_body b"
    using assms(1) by simp
  show "mass (substep (Fin h) bs ! i) = mass (bs ! i)"
    using assms(3) b by (simp add: substep_nth)
  show "velocity (substep (Fin h) bs ! i)
         = Vector3
             (Fin (rl (vx (velocity (bs ! i))) + net_pull vx bs i * (1 / rl (mass (bs ! i))) * h))
             (Fin (rl (vy (velocity (bs ! i))) + net_pull vy bs i * (1 / rl (mass (bs ! i))) * h))
             (Fin (rl (vz (velocity (bs ! i))) + net_pull vz bs i * (1 / rl (mass (bs ! i))) * h))"
    using assms(3) b new_velocity_fin [OF fin assms(2,3) b(2), of h]
    by (simp add: substep_nth)
qed

lemma momentum_substep:
  assumes "\<forall>b \<in> set bs. \<not> isFixed b \<and> fin_body b \<and> mass b \<noteq> Fin 0"
    and "distinct (map position bs)" and "c = vx \<or> c = vy \<or> c = vz"
  shows "momentum c (substep (Fin h) bs) = momentum c bs"
proof -
  have summand: "rl (c (velocity (substep (Fin h) bs ! i))) * rl (mass (substep (Fin h) bs ! i))
        = rl (c (velocity (bs ! i))) * rl (mass (bs ! i)) + h * net_pull c bs i"
    if i: "i < length bs" for i
  proof -
    have "fin_body (bs ! i)" "mass (bs ! i) \<noteq> Fin 0"
      using assms(1) i by simp_all
    then obtain m where m: "mass (bs ! i) = Fin m" "m \<noteq> 0"
      by (cases "mass (bs ! i)") (auto simp: fin_body_def)
    have "(v + p * (1 / m) * h) * m = v * m + h * p" for v p :: real
      using m(2) by (simp add: field_simps)
    then show ?thesis
      using assms(3) substep_body_fin [OF assms(1,2) i, of h] m by auto
  qed
  have "momentum c (substep (Fin h) bs)
        = (\<Sum>i<length bs. rl (c (velocity (bs ! i))) * rl (mass (bs ! i)) + h * net_pull c bs i)"
    unfolding momentum_nth length_substep
    by (intro sum.cong refl) (simp add: summand)
  also have "\<dots> = momentum c bs + h * (\<Sum>i<length bs. net_pull c bs i)"
    by (simp add: sum.distrib sum_distrib_left momentum_nth)
  finally show ?thesis
    by (simp add: net_pull_sum)
qed

text \<open>
  Where no two bodies share a position: for bodies none of which is fixed, with finite
  values and non-zero masses, and a finite \<open>dt\<close>, a substep leaves the total momentum
  exactly as it was, since the pulls of two bodies on each other cancel.
\<close>

lemma momentum_conserved:
  assumes "\<forall>b \<in> set bodies. \<not> isFixed b \<and> fin_body b \<and> mass b \<noteq> Fin 0"
    and "distinct (map position bodies)"
  shows "total_momentum (substep (Fin h) bodies) = total_momentum bodies"
proof -
  have before: "\<forall>b \<in> set bodies. fin_vec (velocity b) \<and> is_fin (mass b)"
    using assms(1) by (simp add: fin_body_def)
  have after: "\<forall>b \<in> set (substep (Fin h) bodies). fin_vec (velocity b) \<and> is_fin (mass b)"
  proof
    fix b assume "b \<in> set (substep (Fin h) bodies)"
    then obtain i where i: "i < length bodies" and b: "b = substep (Fin h) bodies ! i"
      by (auto simp: in_set_conv_nth length_substep)
    have "is_fin (mass (bodies ! i))"
      using assms(1) i by (simp add: fin_body_def)
    then show "fin_vec (velocity b) \<and> is_fin (mass b)"
      using substep_body_fin [OF assms i, of h] b by (simp add: fin_vec_def)
  qed
  show ?thesis
    by (simp add: total_momentum_fin [OF before] total_momentum_fin [OF after]
        momentum_substep [OF assms])
qed

lemma momentum_conserved_instance:
  "total_momentum (substep (Fin (5 / 10000))
     [\<lparr>position = Vector3 (Fin 0) (Fin 0) (Fin 0), velocity = Vector3 (Fin 15) (Fin 0) (Fin 0),
       mass = Fin 256, radius = Fin 4, color = WHITE, isFixed = False\<rparr>,
      \<lparr>position = Vector3 (Fin 50) (Fin 0) (Fin 0), velocity = Vector3 (Fin 0) (Fin 0) (Fin 310),
       mass = Fin 100, radius = Fin 3, color = SKYBLUE, isFixed = False\<rparr>])
   = Vector3 (Fin 3840) (Fin 0) (Fin 31000)"
  using momentum_conserved [of
     "[\<lparr>position = Vector3 (Fin 0) (Fin 0) (Fin 0), velocity = Vector3 (Fin 15) (Fin 0) (Fin 0),
       mass = Fin 256, radius = Fin 4, color = WHITE, isFixed = False\<rparr>,
      \<lparr>position = Vector3 (Fin 50) (Fin 0) (Fin 0), velocity = Vector3 (Fin 0) (Fin 0) (Fin 310),
       mass = Fin 100, radius = Fin 3, color = SKYBLUE, isFixed = False\<rparr>]" "5 / 10000"]
  by (simp add: fin_body_def fin_vec_def total_momentum_def Vector3Add_def Vector3Scale_def
      Vector3Zero_def)


subsection \<open>The clamp of line 176\<close>

text \<open>
  C1. After a reset the registry holds the fixed star at the origin; a body created at the
  origin coincides with it. The force magnitude the integrator computes for the pair is
  infinite, and one substep leaves the new body with a velocity of NaNs.
\<close>

theorem coincident_force:
  "snd (force_terms
          \<lparr>position = Vector3 (Fin 0) (Fin 0) (Fin 0), velocity = Vector3 (Fin 15) (Fin 0) (Fin 0),
           mass = Fin 256, radius = Fin 4, color = WHITE, isFixed = False\<rparr>
          (hd initial_bodies)) = PInf
   \<and> velocity (substep (Fin (5 / 10000))
        [hd initial_bodies,
         \<lparr>position = Vector3 (Fin 0) (Fin 0) (Fin 0), velocity = Vector3 (Fin 15) (Fin 0) (Fin 0),
          mass = Fin 256, radius = Fin 4, color = WHITE, isFixed = False\<rparr>] ! 1)
       = Vector3 NaN NaN NaN"
  by (simp add: force_terms_def initial_bodies_def Vector3Subtract_def Vector3LengthSqr_def
      fsub_def G_def signed_inf_def substep_def position_pass_def velocity_pass_def
      update_velocity_def new_velocity_def totalForce_def add_force_def Vector3Normalize_def
      Vector3Length_def Vector3Zero_def Vector3Add_def Vector3Scale_def fneq_def feq_def update_position_def
      upt_rec [of 0] upt_rec [of 1] upt_rec [of 2] Let_def)

text \<open>
  C10. A substep computes the same bodies whether or not line 176, which clamps \<open>dist\<close>,
  executes: the clamped variable is never read.
\<close>

theorem clamp_has_no_effect: "substep dt bodies = substep_noclamp dt bodies"
proof -
  have ft: "force_terms bi bj = force_terms_noclamp bi bj" for bi bj
    by (simp add: force_terms_def force_terms_noclamp_def Let_def)
  have af: "add_force = add_force_noclamp"
    by (intro ext) (simp add: add_force_def add_force_noclamp_def ft)
  have tf: "totalForce = totalForce_noclamp"
    by (intro ext) (simp add: totalForce_def totalForce_noclamp_def af)
  have uv: "update_velocity = update_velocity_noclamp"
    by (intro ext) (simp add: update_velocity_def update_velocity_noclamp_def new_velocity_def tf)
  show ?thesis
    by (simp add: substep_def substep_noclamp_def velocity_pass_def velocity_pass_noclamp_def uv)
qed

end
